theory Spec2Isabelle
  imports Main
begin

section \<open>Data model (types.ts and the state hooks of App.tsx)\<close>

text \<open>
  A JavaScript string is modelled as a \<^typ>\<open>string\<close>; the handlers only compare strings for
  equality and store them. The two literals of the source that hold the letter i-acute
  (U+00ED) carry it as the single character \<^term>\<open>CHR 0xED\<close>.
\<close>

record Recipe =
  recipeName :: string
  description :: string
  prepTime :: string
  tags :: "string list"
  ingredients :: "string list"
  instructions :: "string list"

datatype gender = masculino | feminino | nao_informar

record UserProfile =
  name :: string
  age :: string
  gender :: gender
  dietaryRestrictions :: "string list"

text \<open>
  The component state: one field per \<open>useState\<close> hook of \<open>App\<close>, in the order of the
  source. \<open>string | null\<close> and \<open>Recipe | null\<close> are options.
\<close>

record app_state =
  isAuthenticated :: bool
  ingredients :: "string list"
  recipes :: "Recipe list"
  favoriteRecipes :: "Recipe list"
  shoppingList :: "string list"
  isLoading :: bool
  loadingMessage :: string
  error :: "string option"
  activeTab :: string
  selectedRecipe :: "Recipe option"
  isCameraOpen :: bool
  profile :: UserProfile

definition initialState :: app_state where
  "initialState =
     \<lparr> isAuthenticated = False,
       ingredients = [],
       recipes = [],
       favoriteRecipes = [],
       shoppingList = [],
       isLoading = False,
       loadingMessage = '''',
       error = None,
       activeTab = ''In'' @ [CHR 0xED] @ ''cio'',
       selectedRecipe = None,
       isCameraOpen = False,
       profile = \<lparr> name = '''', age = '''', gender = nao_informar,
                   dietaryRestrictions = [] \<rparr> \<rparr>"

section \<open>The two collaborators and the effects of a handler\<close>

text \<open>
  \<open>generateRecipes\<close> and \<open>identifyIngredientsFromImage\<close> live in
  \<open>services/geminiService\<close>, outside the sources at hand; the handlers take them as
  parameters. An awaited call either resolves with a value (\<open>Inr\<close>) or rejects with an
  error (\<open>Inl\<close>).
\<close>

datatype js_error = JsError string

type_synonym generate_collab = "string list \<Rightarrow> UserProfile \<Rightarrow> js_error + Recipe list"
type_synonym identify_collab = "string \<Rightarrow> js_error + string list"

text \<open>
  What a handler does besides updating the state: the requests it sends and the errors it
  writes to the console. Each effect is logged together with the state the updates queued
  so far amount to, which is the state on display while a request is awaited.
\<close>

datatype effect =
    IdentifyRequest string
  | GenerateRequest "string list" UserProfile
  | ConsoleError js_error

type_synonym trace = "(effect \<times> app_state) list"


fun isRequest :: "effect \<Rightarrow> bool" where
  "isRequest (ConsoleError _) = False"
| "isRequest _ = True"

text \<open>The states on display at the requests of a trace, in order.\<close>

definition requestStates :: "trace \<Rightarrow> app_state list" where
  "requestStates tr = map snd (filter (\<lambda>(e, st). isRequest e) tr)"

section \<open>The handlers of App.tsx\<close>

definition generateFailureMessage :: string where
  "generateFailureMessage = ''Falha ao buscar receitas. Tente novamente mais tarde.''"

definition identifyFailureMessage :: string where
  "identifyFailureMessage =
     ''Falha ao identificar ingredientes. Tente uma foto mais n'' @ [CHR 0xED] @ ''tida.''"

text \<open>
  A handler is created anew at each render and reads two kinds of values: the state
  variables of its render, fixed when the handler was created (its closure), and the state
  it updates through the setters. The two differ once the state has moved on from that
  render, so a handler that reads a state variable takes it as a parameter of its own
  (\<open>closedProfile\<close>, \<open>closedIngredients\<close>), beside the state \<open>s\<close> it updates.
\<close>

text \<open>
  \<open>handleGenerateRecipes\<close> (App.tsx, lines 37 to 56). \<open>closedProfile\<close> is the
  \<open>profile\<close> of line 47, the one of the render that created this instance of the callback
  (dependency list of line 56). The \<open>finally\<close> block runs after either branch of the
  \<open>try\<close>.
\<close>

definition handleGenerateRecipes ::
  "generate_collab \<Rightarrow> UserProfile \<Rightarrow> app_state \<Rightarrow> string list \<Rightarrow> trace \<times> app_state" where
  "handleGenerateRecipes generateRecipes closedProfile s currentIngredients =
     (if length currentIngredients = 0 then ([], s\<lparr>recipes := []\<rparr>)
      else
        let s1 = s\<lparr>loadingMessage := ''Sugerindo receitas...''\<rparr>;
            s2 = s1\<lparr>isLoading := True\<rparr>;
            s3 = s2\<lparr>error := None\<rparr>;
            request = (GenerateRequest currentIngredients closedProfile, s3);
            (tr, s4) =
              (case generateRecipes currentIngredients closedProfile of
                 Inr suggestedRecipes \<Rightarrow> ([request], s3\<lparr>recipes := suggestedRecipes\<rparr>)
               | Inl err \<Rightarrow>
                   let s3' = s3\<lparr>error := Some generateFailureMessage\<rparr>
                   in ([request, (ConsoleError err, s3')], s3'));
            s5 = s4\<lparr>isLoading := False\<rparr>;
            s6 = s5\<lparr>loadingMessage := ''''\<rparr>
        in (tr, s6))"

text \<open>
  \<open>handleCapture\<close> (App.tsx, lines 58 to 80), in the two parts that the \<open>await\<close> of
  line 66 separates. \<open>handleCaptureBegin\<close> is lines 59 to 66, up to the request;
  \<open>handleCaptureResume\<close> is lines 67 to 79, run when the identification has settled, on
  the state of that moment. The \<open>handleGenerateRecipes\<close> of line 69 is the instance this
  callback closes over (dependency list of line 80), hence with that instance's
  \<open>closedProfile\<close>. It catches every rejection of its own request, so the \<open>catch\<close> of
  line 74 is reached only when the identification rejects.
\<close>

definition handleCaptureBegin :: "app_state \<Rightarrow> string \<Rightarrow> trace \<times> app_state" where
  "handleCaptureBegin s imageBase64 =
     (let s1 = s\<lparr>isCameraOpen := False\<rparr>;
          s2 = s1\<lparr>isLoading := True\<rparr>;
          s3 = s2\<lparr>loadingMessage := ''Identificando ingredientes...''\<rparr>;
          s4 = s3\<lparr>error := None\<rparr>;
          s5 = s4\<lparr>ingredients := []\<rparr>;
          s6 = s5\<lparr>recipes := []\<rparr>
      in ([(IdentifyRequest imageBase64, s6)], s6))"

definition handleCaptureResume ::
  "generate_collab \<Rightarrow> UserProfile \<Rightarrow> js_error + string list \<Rightarrow> app_state \<Rightarrow>
     trace \<times> app_state" where
  "handleCaptureResume generateRecipes closedProfile settled s6 =
     (case settled of
        Inr identified \<Rightarrow>
          let s7 = s6\<lparr>ingredients := identified\<rparr>
          in if length identified > 0 then
               handleGenerateRecipes generateRecipes closedProfile s7 identified
             else
               let s8 = s7\<lparr>isLoading := False\<rparr>;
                   s9 = s8\<lparr>loadingMessage := ''''\<rparr>
               in ([], s9)
      | Inl err \<Rightarrow>
          let s7 = s6\<lparr>error := Some identifyFailureMessage\<rparr>;
              s8 = s7\<lparr>isLoading := False\<rparr>;
              s9 = s8\<lparr>loadingMessage := ''''\<rparr>
          in ([(ConsoleError err, s7)], s9))"

text \<open>The whole handler, when no other handler runs while the identification is awaited.\<close>

definition handleCapture ::
  "identify_collab \<Rightarrow> generate_collab \<Rightarrow> UserProfile \<Rightarrow> app_state \<Rightarrow> string \<Rightarrow>
     trace \<times> app_state" where
  "handleCapture identifyIngredientsFromImage generateRecipes closedProfile s imageBase64 =
     (let (tr1, s6) = handleCaptureBegin s imageBase64;
          (tr2, s') = handleCaptureResume generateRecipes closedProfile
                        (identifyIngredientsFromImage imageBase64) s6
      in (tr1 @ tr2, s'))"

text \<open>
  \<open>handleIdentifyClick\<close> (App.tsx, lines 82 to 88), invoked on the render of \<open>s\<close>: it is
  not memoised, so \<open>ingredients\<close> and the \<open>handleGenerateRecipes\<close> it calls are those of
  the render the button belongs to.
\<close>

definition handleIdentifyClick :: "generate_collab \<Rightarrow> app_state \<Rightarrow> trace \<times> app_state" where
  "handleIdentifyClick generateRecipes s =
     (if length (ingredients s) > 0
      then handleGenerateRecipes generateRecipes (profile s) s (ingredients s)
      else ([], s\<lparr>isCameraOpen := True\<rparr>))"

text \<open>
  \<open>handleToggleFavorite\<close> (App.tsx, lines 90 to 99): \<open>toggleFavoriteUpdate recipe\<close> is the
  function handed to \<open>setFavoriteRecipes\<close>; \<open>some\<close> is \<^const>\<open>list_ex\<close>.
\<close>

definition toggleFavoriteUpdate :: "Recipe \<Rightarrow> Recipe list \<Rightarrow> Recipe list" where
  "toggleFavoriteUpdate recipe prev =
     (let isFavorite = list_ex (\<lambda>r. recipeName r = recipeName recipe) prev
      in if isFavorite then filter (\<lambda>r. recipeName r \<noteq> recipeName recipe) prev
         else prev @ [recipe])"

definition handleToggleFavorite :: "app_state \<Rightarrow> Recipe \<Rightarrow> app_state" where
  "handleToggleFavorite s recipe =
     s\<lparr>favoriteRecipes := toggleFavoriteUpdate recipe (favoriteRecipes s)\<rparr>"

text \<open>A run of toggles, one recipe after the other.\<close>

definition toggleAll :: "app_state \<Rightarrow> Recipe list \<Rightarrow> app_state" where
  "toggleAll s rs = foldl handleToggleFavorite s rs"

text \<open>\<open>isRecipeFavorite\<close> (App.tsx, lines 101 to 103).\<close>

definition isRecipeFavorite :: "app_state \<Rightarrow> Recipe \<Rightarrow> bool" where
  "isRecipeFavorite s recipe =
     list_ex (\<lambda>r. recipeName r = recipeName recipe) (favoriteRecipes s)"

text \<open>
  \<open>handleAddIngredient\<close> (App.tsx, lines 105 to 109). \<open>includes\<close> (equality of strings)
  tests \<open>closedIngredients\<close>, the \<open>ingredients\<close> of the render that created the handler
  (line 106); the append is a functional update, applied to the list of the state at hand
  (\<open>prev\<close>, line 107).
\<close>

definition handleAddIngredient :: "string list \<Rightarrow> app_state \<Rightarrow> string \<Rightarrow> app_state" where
  "handleAddIngredient closedIngredients s ingredient =
     (if \<not> (ingredient \<in> set closedIngredients)
      then s\<lparr>ingredients := ingredients s @ [ingredient]\<rparr>
      else s)"

text \<open>
  \<open>handleRemoveIngredient\<close> (App.tsx, lines 111 to 113). \<open>filterIndexed\<close> is
  \<open>Array.prototype.filter\<close> with a callback that reads the element and its position; the
  index handed in is any integer, the positions are \<open>0\<close> to \<open>length - 1\<close>.
\<close>

definition filterIndexed :: "('a \<Rightarrow> nat \<Rightarrow> bool) \<Rightarrow> 'a list \<Rightarrow> 'a list" where
  "filterIndexed p xs = map fst (filter (\<lambda>(x, i). p x i) (zip xs [0..<length xs]))"

definition handleRemoveIngredient :: "app_state \<Rightarrow> int \<Rightarrow> app_state" where
  "handleRemoveIngredient s index =
     s\<lparr>ingredients := filterIndexed (\<lambda>_ i. int i \<noteq> index) (ingredients s)\<rparr>"


section \<open>Concrete collaborators and recipes\<close>

text \<open>
  Stand-ins for the two services, used where a property is evaluated on a concrete run:
  one that resolves and one that rejects, for each service.
\<close>

definition tomatoOmelet :: Recipe where
  "tomatoOmelet =
     \<lparr> recipeName = ''Tomato Omelet'', description = ''Eggs with tomato'',
       prepTime = ''10 min'', tags = [''quick''], ingredients = [''tomato'', ''egg''],
       instructions = [''Beat the eggs'', ''Fry with the tomato''] \<rparr>"

definition eggSalad :: Recipe where
  "eggSalad =
     \<lparr> recipeName = ''Egg Salad'', description = ''Cold salad'',
       prepTime = ''15 min'', tags = [], ingredients = [''egg'', ''lettuce''],
       instructions = [''Boil the eggs'', ''Mix''] \<rparr>"

definition tomatoOmeletBaked :: Recipe where
  "tomatoOmeletBaked = tomatoOmelet\<lparr>description := ''Oven version'', prepTime := ''25 min''\<rparr>"

definition generateResolves :: generate_collab where
  "generateResolves currentIngredients p = Inr [tomatoOmelet]"

definition generateRejects :: generate_collab where
  "generateRejects currentIngredients p = Inl (JsError ''network'')"

definition identifyResolves :: identify_collab where
  "identifyResolves imageBase64 = Inr [''tomato'', ''egg'']"

definition identifyRejects :: identify_collab where
  "identifyRejects imageBase64 = Inl (JsError ''network'')"

definition staleErrorState :: app_state where
  "staleErrorState = initialState\<lparr>error := Some generateFailureMessage\<rparr>"

definition pantryState :: app_state where
  "pantryState = initialState\<lparr>ingredients := [''tomato'', ''egg'']\<rparr>"

definition anaProfile :: UserProfile where
  "anaProfile =
     \<lparr> name = ''Ana'', age = ''30'', gender = feminino,
       dietaryRestrictions = [''vegetariana''] \<rparr>"


text \<open>
  Two additions of the same name through the handler of one render, the one that shows
  \<open>pantryState\<close>: the second runs before the next render, on the state the first left.
\<close>

definition saltAddedTwice :: app_state where
  "saltAddedTwice =
     handleAddIngredient (ingredients pantryState)
       (handleAddIngredient (ingredients pantryState) pantryState ''salt'') ''salt''"

section \<open>Helper lemmas\<close>

lemma filter_other_names:
  "\<not> list_ex (\<lambda>x. recipeName x = n) prev \<Longrightarrow> filter (\<lambda>x. recipeName x \<noteq> n) prev = prev"
  by (induction prev) auto

lemma filter_same_name_empty:
  "\<not> list_ex (\<lambda>x. recipeName x = n) prev \<Longrightarrow> filter (\<lambda>x. recipeName x = n) prev = []"
  by (induction prev) auto

lemma toggle_absent:
  "\<not> list_ex (\<lambda>x. recipeName x = recipeName r) prev \<Longrightarrow>
   toggleFavoriteUpdate r prev = prev @ [r]"
  by (simp add: toggleFavoriteUpdate_def)

lemma toggle_present:
  "list_ex (\<lambda>x. recipeName x = recipeName r) prev \<Longrightarrow>
   toggleFavoriteUpdate r prev = filter (\<lambda>x. recipeName x \<noteq> recipeName r) prev"
  by (simp add: toggleFavoriteUpdate_def)

lemma toggle_present_removes_all:
  "list_ex (\<lambda>x. recipeName x = recipeName r) prev \<Longrightarrow>
   \<not> list_ex (\<lambda>x. recipeName x = recipeName r) (toggleFavoriteUpdate r prev)"
  by (simp add: toggle_present list_ex_iff)

lemma toggle_twice_absent:
  assumes "\<not> list_ex (\<lambda>x. recipeName x = recipeName r) prev"
  shows "toggleFavoriteUpdate r (toggleFavoriteUpdate r prev) = prev"
proof -
  have "toggleFavoriteUpdate r (prev @ [r])
          = filter (\<lambda>x. recipeName x \<noteq> recipeName r) (prev @ [r])"
    by (rule toggle_present) simp
  also have "\<dots> = prev"
    using assms by (simp add: filter_other_names)
  finally show ?thesis
    using assms by (simp add: toggle_absent)
qed

lemma toggle_twice_names:
  "recipeName ` set (toggleFavoriteUpdate r (toggleFavoriteUpdate r prev)) = recipeName ` set prev"
proof (cases "list_ex (\<lambda>x. recipeName x = recipeName r) prev")
  case False
  then show ?thesis by (simp add: toggle_twice_absent)
next
  case True
  have gone: "\<not> list_ex (\<lambda>x. recipeName x = recipeName r) (toggleFavoriteUpdate r prev)"
    using True by (rule toggle_present_removes_all)
  have "toggleFavoriteUpdate r (toggleFavoriteUpdate r prev)
          = filter (\<lambda>x. recipeName x \<noteq> recipeName r) prev @ [r]"
    using gone True by (simp add: toggle_absent toggle_present)
  moreover have "recipeName ` set (filter (\<lambda>x. recipeName x \<noteq> recipeName r) prev @ [r])
          = recipeName ` set prev"
  proof -
    from True obtain y where y: "y \<in> set prev" "recipeName r = recipeName y"
      by (auto simp: list_ex_iff)
    then have "recipeName r \<in> recipeName ` set prev"
      by (intro image_eqI)
    then show ?thesis by auto
  qed
  ultimately show ?thesis by simp
qed

lemma filterIndexed_all:
  assumes "\<And>i. i < length xs \<Longrightarrow> p (xs ! i) i"
  shows "filterIndexed p xs = xs"
proof -
  have "filter (\<lambda>(x, i). p x i) (zip xs [0..<length xs]) = zip xs [0..<length xs]"
    using assms by (auto simp: filter_id_conv in_set_zip)
  then show ?thesis
    by (simp add: filterIndexed_def)
qed

text \<open>An index inside the list does remove the entry at that position.\<close>

lemma remove_in_range_example:
  "handleRemoveIngredient pantryState 0 = pantryState\<lparr>ingredients := [''egg'']\<rparr>
   \<and> handleRemoveIngredient pantryState 1 = pantryState\<lparr>ingredients := [''tomato'']\<rparr>"
  by (simp add: handleRemoveIngredient_def filterIndexed_def pantryState_def)

section \<open>Generation\<close>

lemmas capture_defs =
  handleCapture_def handleCaptureBegin_def handleCaptureResume_def






text \<open>
  Claim C2. Invoked with an empty ingredient list, \<open>handleGenerateRecipes\<close> has no effect
  outside the state (no request, nothing logged) and the resulting state is the given one
  with the recipe list emptied; every other field is as before.
\<close>

theorem generate_empty_clears_recipes:
  "handleGenerateRecipes g p s [] = ([], s\<lparr>recipes := []\<rparr>)"
  by (simp add: handleGenerateRecipes_def)

theorem generate_empty_clears_recipes_witness:
  "handleGenerateRecipes generateResolves (profile initialState)
     (initialState\<lparr>recipes := [eggSalad]\<rparr>) []
     = ([], initialState)"
  using generate_empty_clears_recipes
      [of generateResolves "profile initialState" "initialState\<lparr>recipes := [eggSalad]\<rparr>"]
  by (simp add: initialState_def)

text \<open>
  Claim C3. Invoked with a non-empty ingredient list, \<open>handleGenerateRecipes\<close> ends with
  the loading flag false and the loading message empty, whatever the generate service
  answers: a list of recipes, an empty list, or a rejection.
\<close>

theorem generate_releases_loading:
  assumes "currentIngredients \<noteq> []"
  shows "isLoading (snd (handleGenerateRecipes g p s currentIngredients)) = False
       \<and> loadingMessage (snd (handleGenerateRecipes g p s currentIngredients)) = ''''"
  using assms by (auto simp: handleGenerateRecipes_def Let_def split: sum.splits)

theorem generate_releases_loading_witness:
  "[''egg''] \<noteq> ([]::string list)
   \<and> isLoading (snd (handleGenerateRecipes generateRejects (profile initialState)
         (initialState\<lparr>isLoading := True\<rparr>) [''egg''])) = False
   \<and> loadingMessage (snd (handleGenerateRecipes generateRejects (profile initialState)
         (initialState\<lparr>isLoading := True\<rparr>) [''egg''])) = ''''"
  using generate_releases_loading
      [of "[''egg'']" generateRejects "profile initialState" "initialState\<lparr>isLoading := True\<rparr>"]
  by simp

section \<open>Identification\<close>

text \<open>
  Claim C4. When the identify service rejects after a capture, \<open>handleCapture\<close> ends with
  an empty ingredient list, an empty recipe list, the fixed identification-failure message
  as the error, and the loading flag false.
\<close>

theorem capture_identify_failure:
  assumes "identify imageBase64 = Inl err"
  shows "ingredients (snd (handleCapture identify g p s imageBase64)) = []
       \<and> recipes (snd (handleCapture identify g p s imageBase64)) = []
       \<and> error (snd (handleCapture identify g p s imageBase64)) = Some identifyFailureMessage
       \<and> isLoading (snd (handleCapture identify g p s imageBase64)) = False"
  using assms by (simp add: capture_defs Let_def)

theorem capture_identify_failure_witness:
  "identifyRejects ''photo'' = Inl (JsError ''network'')
   \<and> ingredients (snd (handleCapture identifyRejects generateResolves (profile pantryState)
        pantryState ''photo'')) = []
   \<and> recipes (snd (handleCapture identifyRejects generateResolves (profile pantryState)
        pantryState ''photo'')) = []
   \<and> error (snd (handleCapture identifyRejects generateResolves (profile pantryState)
        pantryState ''photo'')) = Some identifyFailureMessage
   \<and> isLoading (snd (handleCapture identifyRejects generateResolves (profile pantryState)
        pantryState ''photo'')) = False"
proof -
  have h: "identifyRejects ''photo'' = Inl (JsError ''network'')"
    by (simp add: identifyRejects_def)
  show ?thesis
    using h capture_identify_failure
      [of identifyRejects "''photo''" "JsError ''network''" generateResolves
          "profile pantryState" pantryState]
    by simp
qed
section \<open>Favorites\<close>

text \<open>
  Claim C5. Toggling a recipe whose name is not among the favorites appends it, so that
  exactly one favorite carries its name; toggling it again gives back the state as it was;
  a third toggle adds it again. For any favorites list, two successive toggles of the same
  recipe leave the set of favorite names as it was.
\<close>

theorem toggle_favorite_round_trip:
  "recipeName ` set (favoriteRecipes (handleToggleFavorite (handleToggleFavorite s r) r))
     = recipeName ` set (favoriteRecipes s)
   \<and> (\<not> isRecipeFavorite s r \<longrightarrow>
        favoriteRecipes (handleToggleFavorite s r) = favoriteRecipes s @ [r]
      \<and> length (filter (\<lambda>x. recipeName x = recipeName r)
                  (favoriteRecipes (handleToggleFavorite s r))) = 1
      \<and> handleToggleFavorite (handleToggleFavorite s r) r = s
      \<and> handleToggleFavorite (handleToggleFavorite (handleToggleFavorite s r) r) r
          = handleToggleFavorite s r)"
proof (intro conjI impI)
  show "recipeName ` set (favoriteRecipes (handleToggleFavorite (handleToggleFavorite s r) r))
     = recipeName ` set (favoriteRecipes s)"
    by (simp add: handleToggleFavorite_def toggle_twice_names)
next
  assume "\<not> isRecipeFavorite s r"
  then have absent: "\<not> list_ex (\<lambda>x. recipeName x = recipeName r) (favoriteRecipes s)"
    by (simp add: isRecipeFavorite_def)
  show added: "favoriteRecipes (handleToggleFavorite s r) = favoriteRecipes s @ [r]"
    using absent by (simp add: handleToggleFavorite_def toggle_absent)
  show "length (filter (\<lambda>x. recipeName x = recipeName r)
          (favoriteRecipes (handleToggleFavorite s r))) = 1"
    using absent by (simp add: added filter_same_name_empty)
  have "toggleFavoriteUpdate r (toggleFavoriteUpdate r (favoriteRecipes s)) = favoriteRecipes s"
    using absent by (rule toggle_twice_absent)
  then show restored: "handleToggleFavorite (handleToggleFavorite s r) r = s"
    by (simp add: handleToggleFavorite_def)
  show "handleToggleFavorite (handleToggleFavorite (handleToggleFavorite s r) r) r
          = handleToggleFavorite s r"
    by (simp only: restored)
qed

theorem toggle_favorite_round_trip_witness:
  "\<not> isRecipeFavorite (handleToggleFavorite initialState eggSalad) tomatoOmelet
   \<and> favoriteRecipes
       (handleToggleFavorite (handleToggleFavorite initialState eggSalad) tomatoOmelet)
       = [eggSalad, tomatoOmelet]
   \<and> handleToggleFavorite
       (handleToggleFavorite (handleToggleFavorite initialState eggSalad) tomatoOmelet)
       tomatoOmelet
       = handleToggleFavorite initialState eggSalad"
  using toggle_favorite_round_trip [of "handleToggleFavorite initialState eggSalad" tomatoOmelet]
  by (simp add: handleToggleFavorite_def isRecipeFavorite_def toggleFavoriteUpdate_def
      initialState_def eggSalad_def tomatoOmelet_def)

section \<open>Ingredients\<close>

text \<open>
  A name that the render of the handler already shows is not added, whatever the state
  the handler runs on.
\<close>

lemma add_shown_ingredient_unchanged:
  "ingredient \<in> set closedIngredients \<Longrightarrow>
   handleAddIngredient closedIngredients s ingredient = s"
  by (simp add: handleAddIngredient_def)

text \<open>
  Claim C6 is not met by the code. The test for a duplicate reads the list of the
  handler's render, the append reads the list of the current state: when the two differ,
  a name that the list already holds is added again. Here the handler of one render adds
  \<open>salt\<close> twice; at the second addition the list holds \<open>salt\<close> and grows all the same.
\<close>

theorem add_present_ingredient_duplicates:
  "''salt'' \<in> set (ingredients
       (handleAddIngredient (ingredients pantryState) pantryState ''salt''))
   \<and> ingredients (handleAddIngredient (ingredients pantryState) pantryState ''salt'')
       = [''tomato'', ''egg'', ''salt'']
   \<and> ingredients saltAddedTwice = [''tomato'', ''egg'', ''salt'', ''salt'']"
  by (simp add: saltAddedTwice_def handleAddIngredient_def pantryState_def)

text \<open>
  Claim C7. Removing by an index outside the ingredient list (negative, or at least its
  length) leaves the state unchanged. The handler has no failing branch: it is a filter
  over the list, defined for every index.
\<close>

theorem remove_out_of_range_unchanged:
  assumes "index < 0 \<or> int (length (ingredients s)) \<le> index"
  shows "handleRemoveIngredient s index = s"
proof -
  have "filterIndexed (\<lambda>_ i. int i \<noteq> index) (ingredients s) = ingredients s"
    using assms by (intro filterIndexed_all) auto
  then show ?thesis
    by (simp add: handleRemoveIngredient_def)
qed

theorem remove_out_of_range_unchanged_witness:
  "((-1::int) < 0 \<or> int (length (ingredients pantryState)) \<le> -1)
   \<and> handleRemoveIngredient pantryState (-1) = pantryState
   \<and> ((2::int) < 0 \<or> int (length (ingredients pantryState)) \<le> 2)
   \<and> handleRemoveIngredient pantryState 2 = pantryState"
  using remove_out_of_range_unchanged [of "-1" pantryState]
    remove_out_of_range_unchanged [of 2 pantryState]
  by (simp add: pantryState_def)

section \<open>Errors\<close>

lemma generate_error_after:
  "currentIngredients \<noteq> [] \<Longrightarrow>
   error (snd (handleGenerateRecipes g p s currentIngredients))
     = (case g currentIngredients p of
          Inr _ \<Rightarrow> None | Inl _ \<Rightarrow> Some generateFailureMessage)"
  by (auto simp: handleGenerateRecipes_def Let_def split: sum.splits)

lemma generate_request_states:
  "currentIngredients \<noteq> [] \<Longrightarrow>
   map error (requestStates (fst (handleGenerateRecipes g p s currentIngredients))) = [None]"
  by (auto simp: handleGenerateRecipes_def requestStates_def Let_def split: sum.splits)

lemma requestStates_Nil: "requestStates [] = []"
  by (simp add: requestStates_def)

lemma requestStates_Cons:
  "requestStates ((e, st) # tr) = (if isRequest e then st # requestStates tr else requestStates tr)"
  by (simp add: requestStates_def)

lemma capture_request_states:
  "set (map error (requestStates (fst (handleCapture identify g p s imageBase64)))) = {None}"
proof (cases "identify imageBase64")
  case (Inl err)
  then show ?thesis
    by (simp add: capture_defs requestStates_def Let_def)
next
  case (Inr identified)
  show ?thesis
  proof (cases "identified = []")
    case True
    with Inr show ?thesis
      by (simp add: capture_defs requestStates_Cons requestStates_Nil Let_def)
  next
    case False
    have "map error (requestStates (fst (handleGenerateRecipes g p s' identified))) = [None]"
      for s'
      using False by (rule generate_request_states)
    with Inr False show ?thesis
      by (simp add: capture_defs requestStates_Cons Let_def split_beta)
  qed
qed

lemma capture_error_after:
  "error (snd (handleCapture identify g p s imageBase64))
     = (case identify imageBase64 of
          Inl _ \<Rightarrow> Some identifyFailureMessage
        | Inr identified \<Rightarrow>
            if identified = [] then None
            else (case g identified p of
                    Inr _ \<Rightarrow> None | Inl _ \<Rightarrow> Some generateFailureMessage))"
proof (cases "identify imageBase64")
  case (Inl err)
  then show ?thesis
    by (simp add: capture_defs Let_def)
next
  case (Inr identified)
  show ?thesis
  proof (cases "identified = []")
    case True
    with Inr show ?thesis
      by (simp add: capture_defs Let_def)
  next
    case False
    have "error (snd (handleGenerateRecipes g p s' identified))
            = (case g identified p of
                 Inr _ \<Rightarrow> None | Inl _ \<Rightarrow> Some generateFailureMessage)" for s'
      using False by (rule generate_error_after)
    with Inr False show ?thesis
      by (simp add: capture_defs Let_def split_beta)
  qed
qed

lemma generate_keeps_ingredients:
  "ingredients (snd (handleGenerateRecipes g p s currentIngredients)) = ingredients s"
  by (auto simp: handleGenerateRecipes_def Let_def split: sum.splits)

text \<open>
  Claim C8. Each workflow action resets the error before it proceeds. Generation is
  invoked with a non-empty ingredient list at both of its call sites, the identify button
  on a non-empty list (line 83) and the capture chain (line 68); identification is invoked
  by a capture. In each of them the error is null in the state on display at every
  request, and the error at the end is null when the action succeeds and the failure
  message of the failing step otherwise, whatever the error was before.
\<close>

theorem error_reset_before_request:
  "(ingredients s \<noteq> [] \<longrightarrow>
      map error (requestStates (fst (handleIdentifyClick g s))) = [None]
    \<and> error (snd (handleIdentifyClick g s))
        = (case g (ingredients s) (profile s) of
             Inr _ \<Rightarrow> None | Inl _ \<Rightarrow> Some generateFailureMessage))
   \<and> (currentIngredients \<noteq> [] \<longrightarrow>
      map error (requestStates (fst (handleGenerateRecipes g p s currentIngredients))) = [None]
    \<and> error (snd (handleGenerateRecipes g p s currentIngredients))
        = (case g currentIngredients p of
             Inr _ \<Rightarrow> None | Inl _ \<Rightarrow> Some generateFailureMessage))
   \<and> set (map error (requestStates (fst (handleCapture identify g p s imageBase64)))) = {None}
   \<and> error (snd (handleCapture identify g p s imageBase64))
       = (case identify imageBase64 of
            Inl _ \<Rightarrow> Some identifyFailureMessage
          | Inr identified \<Rightarrow>
              if identified = [] then None
              else (case g identified p of
                      Inr _ \<Rightarrow> None | Inl _ \<Rightarrow> Some generateFailureMessage))"
proof (intro conjI impI)
  show "set (map error (requestStates (fst (handleCapture identify g p s imageBase64))))
          = {None}"
    by (rule capture_request_states)
next
  show "error (snd (handleCapture identify g p s imageBase64))
       = (case identify imageBase64 of
            Inl _ \<Rightarrow> Some identifyFailureMessage
          | Inr identified \<Rightarrow>
              if identified = [] then None
              else (case g identified p of
                      Inr _ \<Rightarrow> None | Inl _ \<Rightarrow> Some generateFailureMessage))"
    by (rule capture_error_after)
qed (simp_all add: handleIdentifyClick_def generate_error_after generate_request_states)

theorem error_reset_before_request_witness:
  "ingredients (staleErrorState\<lparr>ingredients := [''egg'']\<rparr>) \<noteq> []
   \<and> [''egg''] \<noteq> ([]::string list)
   \<and> error staleErrorState = Some generateFailureMessage
   \<and> map error (requestStates (fst (handleIdentifyClick generateResolves
        (staleErrorState\<lparr>ingredients := [''egg'']\<rparr>)))) = [None]
   \<and> error (snd (handleIdentifyClick generateResolves
        (staleErrorState\<lparr>ingredients := [''egg'']\<rparr>))) = None
   \<and> error (snd (handleGenerateRecipes generateResolves anaProfile
        (staleErrorState\<lparr>ingredients := [''egg'']\<rparr>) [''egg''])) = None
   \<and> error (snd (handleCapture identifyResolves generateResolves anaProfile
        (staleErrorState\<lparr>ingredients := [''egg'']\<rparr>) ''photo'')) = None
   \<and> error (snd (handleCapture identifyResolves generateRejects anaProfile
        (staleErrorState\<lparr>ingredients := [''egg'']\<rparr>) ''photo''))
       = Some generateFailureMessage"
  using error_reset_before_request
      [of "staleErrorState\<lparr>ingredients := [''egg'']\<rparr>" generateResolves "[''egg'']"
          anaProfile identifyResolves "''photo''"]
    error_reset_before_request
      [of "staleErrorState\<lparr>ingredients := [''egg'']\<rparr>" generateRejects "[''egg'']"
          anaProfile identifyResolves "''photo''"]
  by (simp add: generateResolves_def generateRejects_def identifyResolves_def
      staleErrorState_def)

text \<open>
  Claim C9. When the generate service rejects, \<open>handleGenerateRecipes\<close> leaves the
  ingredient list as it was before the call; in the chain started by a capture, the
  ingredients just identified stay in place when the generation that follows rejects.
\<close>

theorem generate_failure_keeps_ingredients:
  "(g currentIngredients p = Inl err \<longrightarrow>
      ingredients (snd (handleGenerateRecipes g p s currentIngredients)) = ingredients s)
   \<and> (identify imageBase64 = Inr identified \<longrightarrow> g identified p = Inl err \<longrightarrow>
        ingredients (snd (handleCapture identify g p s imageBase64)) = identified)"
  by (auto simp: capture_defs Let_def split_beta generate_keeps_ingredients)

theorem generate_failure_keeps_ingredients_witness:
  "generateRejects [''tomato'', ''egg''] (profile pantryState) = Inl (JsError ''network'')
   \<and> ingredients (snd (handleGenerateRecipes generateRejects (profile pantryState)
        pantryState [''tomato'', ''egg''])) = [''tomato'', ''egg'']
   \<and> identifyResolves ''photo'' = Inr [''tomato'', ''egg'']
   \<and> generateRejects [''tomato'', ''egg''] (profile initialState) = Inl (JsError ''network'')
   \<and> ingredients (snd (handleCapture identifyResolves generateRejects (profile initialState)
        initialState ''photo'')) = [''tomato'', ''egg'']"
  using generate_failure_keeps_ingredients
      [of generateRejects "[''tomato'', ''egg'']" "profile pantryState"
          "JsError ''network''" pantryState identifyResolves "''photo''"
          "[''tomato'', ''egg'']"]
    generate_failure_keeps_ingredients
      [of generateRejects "[''tomato'', ''egg'']" "profile initialState"
          "JsError ''network''" initialState identifyResolves "''photo''"
          "[''tomato'', ''egg'']"]
  by (simp add: generateRejects_def identifyResolves_def pantryState_def)

section \<open>Distinct favorite names\<close>

lemma toggle_keeps_distinct:
  assumes "distinct (map recipeName prev)"
  shows "distinct (map recipeName (toggleFavoriteUpdate r prev))"
proof (cases "list_ex (\<lambda>x. recipeName x = recipeName r) prev")
  case True
  then show ?thesis
    using assms by (simp add: toggle_present distinct_map_filter)
next
  case False
  then have "recipeName r \<notin> recipeName ` set prev"
    by (auto simp: list_ex_iff)
  with False show ?thesis
    using assms by (simp add: toggle_absent)
qed

lemma toggleAll_keeps_distinct:
  "distinct (map recipeName (favoriteRecipes s)) \<Longrightarrow>
   distinct (map recipeName (favoriteRecipes (toggleAll s rs)))"
  unfolding toggleAll_def
proof (induction rs arbitrary: s)
  case Nil
  then show ?case by simp
next
  case (Cons r rs)
  have "distinct (map recipeName (favoriteRecipes (handleToggleFavorite s r)))"
    using Cons.prems by (simp add: handleToggleFavorite_def toggle_keeps_distinct)
  then show ?case
    using Cons.IH by simp
qed

text \<open>
  Claim C10. Starting from an empty favorites list, after any sequence of toggles no two
  favorites carry the same \<open>recipeName\<close>. And a toggle that removes, on any favorites
  list, leaves no entry with the toggled name.
\<close>

theorem favorites_names_distinct:
  "(favoriteRecipes s = [] \<longrightarrow>
      distinct (map recipeName (favoriteRecipes (toggleAll s rs))))
   \<and> (isRecipeFavorite t r \<longrightarrow>
        filter (\<lambda>x. recipeName x = recipeName r)
          (favoriteRecipes (handleToggleFavorite t r)) = [])"
proof (intro conjI impI)
  assume "favoriteRecipes s = []"
  then show "distinct (map recipeName (favoriteRecipes (toggleAll s rs)))"
    by (intro toggleAll_keeps_distinct) simp
next
  assume "isRecipeFavorite t r"
  then show "filter (\<lambda>x. recipeName x = recipeName r)
          (favoriteRecipes (handleToggleFavorite t r)) = []"
    by (simp add: isRecipeFavorite_def handleToggleFavorite_def toggle_present
        filter_empty_conv)
qed

theorem favorites_names_distinct_witness:
  "favoriteRecipes initialState = []
   \<and> distinct (map recipeName (favoriteRecipes
        (toggleAll initialState [tomatoOmelet, eggSalad, tomatoOmeletBaked, tomatoOmeletBaked])))
   \<and> favoriteRecipes
        (toggleAll initialState [tomatoOmelet, eggSalad, tomatoOmeletBaked, tomatoOmeletBaked])
       = [eggSalad, tomatoOmeletBaked]
   \<and> isRecipeFavorite
        (initialState\<lparr>favoriteRecipes := [tomatoOmelet, eggSalad, tomatoOmeletBaked]\<rparr>)
        tomatoOmelet
   \<and> favoriteRecipes (handleToggleFavorite
        (initialState\<lparr>favoriteRecipes := [tomatoOmelet, eggSalad, tomatoOmeletBaked]\<rparr>)
        tomatoOmelet) = [eggSalad]"
  using favorites_names_distinct
      [of initialState "[tomatoOmelet, eggSalad, tomatoOmeletBaked, tomatoOmeletBaked]"
          "initialState\<lparr>favoriteRecipes := [tomatoOmelet, eggSalad, tomatoOmeletBaked]\<rparr>"
          tomatoOmelet]
  by (simp add: toggleAll_def handleToggleFavorite_def toggleFavoriteUpdate_def
      isRecipeFavorite_def initialState_def tomatoOmelet_def eggSalad_def
      tomatoOmeletBaked_def)

end
